theory Spec2Isabelle
  imports Complex_Main "HOL-Library.Sublist"
begin

section \<open>Python values used by check\_web.py\<close>

text \<open>
  A Python \<open>str\<close> is modelled as a \<open>string\<close> whose characters are the code points
  below 256; \<open>bytes\<close> are a \<open>string\<close> too. A finite \<open>float\<close> is the rational
  number it denotes.
\<close>

datatype pyfloat = FloatFinite rat | FloatInf bool | FloatNaN

text \<open>What \<open>json.loads\<close> can return.\<close>

datatype json =
    JNull
  | JBool bool
  | JInt int
  | JFloat pyfloat
  | JStr string
  | JArr "json list"
  | JObj "(string \<times> json) list"

text \<open>
  An exception object (every one here is a subclass of \<open>Exception\<close>): the name of its
  class and the text \<open>str(e)\<close>.
\<close>

datatype exn = Exn string string

fun str_exn :: "exn \<Rightarrow> string" where
  "str_exn (Exn cls msg) = msg"

text \<open>Truth value testing, \<open>bool(v)\<close>, as used by \<open>not v\<close>.\<close>

fun truthy :: "json \<Rightarrow> bool" where
  "truthy JNull = False"
| "truthy (JBool b) = b"
| "truthy (JInt i) = (i \<noteq> 0)"
| "truthy (JFloat f) = (f \<noteq> FloatFinite 0)"
| "truthy (JStr s) = (s \<noteq> [])"
| "truthy (JArr xs) = (xs \<noteq> [])"
| "truthy (JObj kvs) = (kvs \<noteq> [])"

text \<open>\<open>type(v).__name__\<close>, for the text of an \<open>AttributeError\<close>.\<close>

fun type_name :: "json \<Rightarrow> string" where
  "type_name JNull = ''NoneType''"
| "type_name (JBool b) = ''bool''"
| "type_name (JInt i) = ''int''"
| "type_name (JFloat f) = ''float''"
| "type_name (JStr s) = ''str''"
| "type_name (JArr xs) = ''list''"
| "type_name (JObj kvs) = ''dict''"

text \<open>
  \<open>config.get(key)\<close>: a method of \<open>dict\<close> only, with \<open>None\<close> for an absent key; on any
  other value the attribute lookup raises \<open>AttributeError\<close>. The association list of a
  \<open>dict\<close> holds each key once.
\<close>

definition dict_get :: "json \<Rightarrow> string \<Rightarrow> exn + json" where
  "dict_get v k =
     (case v of
        JObj kvs \<Rightarrow> Inr (case map_of kvs k of None \<Rightarrow> JNull | Some x \<Rightarrow> x)
      | _ \<Rightarrow> Inl (Exn ''AttributeError''
                 ([CHR 0x27] @ type_name v @ [CHR 0x27] @ '' object has no attribute ''
                  @ [CHR 0x27] @ ''get'' @ [CHR 0x27])))"

text \<open>\<open>str.lower()\<close> on code points below 256: A-Z and the capital letters of Latin-1.\<close>

definition lower_char :: "char \<Rightarrow> char" where
  "lower_char c =
     (let n = (of_char c :: nat) in
      if (65 \<le> n \<and> n \<le> 90) \<or> (192 \<le> n \<and> n \<le> 222 \<and> n \<noteq> 215)
      then char_of (n + 32) else c)"

definition lower :: "string \<Rightarrow> string" where
  "lower s = map lower_char s"

section \<open>The world outside the function\<close>

record response =
  status :: int
  data :: string

text \<open>\<open>urllib3.Retry(total=..., backoff_factor=...)\<close>.\<close>

datatype retry = Retry nat nat

text \<open>
  The three calls of \<open>http.request\<close> in the source: the probe (url, timeout, retries),
  the webhook POST (url, the message passed to \<open>json.dumps\<close>) and the bot-API POST
  (url, form fields).
\<close>

datatype request =
    GET string nat retry
  | POST_json json json
  | POST_fields string "(string \<times> json) list"

text \<open>
  What the program reads from its surroundings and what the libraries answer. Every
  remote call either raises (\<open>Inl\<close>) or returns (\<open>Inr\<close>). The \<open>n\<close>-th reading of
  \<open>datetime.utcnow()\<close> is given already rendered, by \<open>isoformat()\<close> and by
  \<open>strftime("%Y-%m-%d %H:%M:%S UTC")\<close>.
\<close>

record world =
  environ :: "string \<rightharpoonup> string"
  http_request :: "request \<Rightarrow> exn + response"
  get_secret_value :: "string \<Rightarrow> exn + (string \<rightharpoonup> string)"
  json_loads :: "string \<Rightarrow> exn + json"
  decode_utf8_ignore :: "string \<Rightarrow> string"
  repr_value :: "json \<Rightarrow> string"
  utcnow_isoformat :: "nat \<Rightarrow> string"
  utcnow_strftime :: "nat \<Rightarrow> string"

text \<open>
  The observable behaviour of one run: the calls that leave the process, in order, and
  (as ghost events) the entry into each function of the module. \<open>clock_reads\<close> counts the
  readings of the clock so far.
\<close>

datatype event =
    Enter string
  | Http request
  | SecretsManager string

record state =
  trace :: "event list"
  clock_reads :: nat

type_synonym 'a comp = "state \<Rightarrow> (exn + 'a) \<times> state"

definition ret :: "'a \<Rightarrow> 'a comp" where
  "ret x = (\<lambda>s. (Inr x, s))"

definition raise :: "exn \<Rightarrow> 'a comp" where
  "raise e = (\<lambda>s. (Inl e, s))"

text \<open>Sequencing: an exception of the first part skips the second.\<close>

definition then_do :: "'a comp \<Rightarrow> ('a \<Rightarrow> 'b comp) \<Rightarrow> 'b comp" where
  "then_do m f = (\<lambda>s. case m s of (Inl e, s') \<Rightarrow> (Inl e, s') | (Inr x, s') \<Rightarrow> f x s')"

text \<open>\<open>try: m  except Exception as e: h e\<close>.\<close>

definition try_except :: "'a comp \<Rightarrow> (exn \<Rightarrow> 'a comp) \<Rightarrow> 'a comp" where
  "try_except m h = (\<lambda>s. case m s of (Inl e, s') \<Rightarrow> h e s' | (Inr x, s') \<Rightarrow> (Inr x, s'))"

definition lift :: "exn + 'a \<Rightarrow> 'a comp" where
  "lift r = (\<lambda>s. (r, s))"

definition emit :: "event \<Rightarrow> unit comp" where
  "emit ev = (\<lambda>s. (Inr (), s\<lparr>trace := trace s @ [ev]\<rparr>))"

definition request_http :: "world \<Rightarrow> request \<Rightarrow> response comp" where
  "request_http w req = (\<lambda>s. (http_request w req, s\<lparr>trace := trace s @ [Http req]\<rparr>))"

definition secrets_get_secret_value :: "world \<Rightarrow> string \<Rightarrow> (string \<rightharpoonup> string) comp" where
  "secrets_get_secret_value w name =
     (\<lambda>s. (get_secret_value w name, s\<lparr>trace := trace s @ [SecretsManager name]\<rparr>))"

definition now_isoformat :: "world \<Rightarrow> string comp" where
  "now_isoformat w = (\<lambda>s. (Inr (utcnow_isoformat w (clock_reads s)),
                          s\<lparr>clock_reads := Suc (clock_reads s)\<rparr>))"

definition now_strftime :: "world \<Rightarrow> string comp" where
  "now_strftime w = (\<lambda>s. (Inr (utcnow_strftime w (clock_reads s)),
                         s\<lparr>clock_reads := Suc (clock_reads s)\<rparr>))"

text \<open>\<open>response['SecretString']\<close>: a missing key raises \<open>KeyError\<close>.\<close>

definition getitem :: "(string \<rightharpoonup> 'v) \<Rightarrow> string \<Rightarrow> exn + 'v" where
  "getitem d k =
     (case d k of
        None \<Rightarrow> Inl (Exn ''KeyError'' ([CHR 0x27] @ k @ [CHR 0x27]))
      | Some v \<Rightarrow> Inr v)"

text \<open>The value a replacement field of an f-string inserts: a \<open>str\<close> as it is.\<close>

definition format_value :: "world \<Rightarrow> json \<Rightarrow> string" where
  "format_value w v = (case v of JStr s \<Rightarrow> s | _ \<Rightarrow> repr_value w v)"

section \<open>check\_web.py\<close>

text \<open>
  The \<open>print\<close> calls are not modelled (no property below observes the log), except that
  the one opening \<open>handler\<close> reads the clock. None of them can change a result: the only
  argument of a \<open>print\<close> that could raise is the decoding of the response in the failure
  branch of \<open>send_telegram_notification\<close>, inside a \<open>try\<close> whose handler returns the
  same \<open>False\<close>. The pictographs in the message templates lie outside the character
  range and are left out of the texts. The default \<open>timeout=10\<close> of
  \<open>check_nginx_health\<close> is passed by its one caller.
\<close>

definition check_nginx_health :: "world \<Rightarrow> string \<Rightarrow> nat \<Rightarrow> bool comp" where
  "check_nginx_health w url timeout =
     then_do (emit (Enter ''check_nginx_health'')) (\<lambda>_.
     try_except
       (then_do (request_http w (GET url timeout (Retry 2 1))) (\<lambda>response.
          if 200 \<le> status response \<and> status response < 300 then
            (let body = decode_utf8_ignore w (data response) in
             if sublist ''nginx'' (lower body) \<or> sublist ''welcome'' (lower body)
             then ret True
             else ret True)
          else ret False))
       (\<lambda>e. ret False))"

definition get_secret :: "world \<Rightarrow> string \<Rightarrow> json comp" where
  "get_secret w secret_name =
     then_do (emit (Enter ''get_secret'')) (\<lambda>_.
     try_except
       (then_do (secrets_get_secret_value w secret_name) (\<lambda>response.
        then_do (lift (getitem response ''SecretString'')) (\<lambda>secret_string.
        lift (json_loads w secret_string))))
       (\<lambda>e. raise e))"

definition slack_message :: "string \<Rightarrow> string \<Rightarrow> json" where
  "slack_message target_url time =
     JObj [(''text'', JStr ''Nginx Health Check Alert''),
           (''attachments'', JArr [JObj
              [(''color'', JStr ''danger''),
               (''fields'', JArr
                  [JObj [(''title'', JStr ''Status''),
                         (''value'', JStr ''Nginx is not responding''),
                         (''short'', JBool True)],
                   JObj [(''title'', JStr ''Target URL''),
                         (''value'', JStr target_url),
                         (''short'', JBool True)],
                   JObj [(''title'', JStr ''Time''),
                         (''value'', JStr time),
                         (''short'', JBool True)]])]])]"

definition send_slack_notification :: "world \<Rightarrow> json \<Rightarrow> string \<Rightarrow> bool comp" where
  "send_slack_notification w config target_url =
     then_do (emit (Enter ''send_slack_notification'')) (\<lambda>_.
     then_do (lift (dict_get config ''slack_webhook_url'')) (\<lambda>webhook_url.
     if \<not> truthy webhook_url then ret False
     else
       then_do (now_strftime w) (\<lambda>time.
       let message = slack_message target_url time in
       try_except
         (then_do (request_http w (POST_json webhook_url message)) (\<lambda>response.
            if status response = 200 then ret True else ret False))
         (\<lambda>e. ret False))))"

definition telegram_message :: "string \<Rightarrow> string \<Rightarrow> string" where
  "telegram_message target_url time =
     ''*Nginx Health Check Alert*'' @ [CHR 0x0A, CHR 0x0A]
     @ ''*Status:* Nginx is not responding'' @ [CHR 0x0A]
     @ ''*URL:* `'' @ target_url @ ''`'' @ [CHR 0x0A]
     @ ''*Time:* '' @ time @ [CHR 0x0A, CHR 0x0A]
     @ ''Please check your nginx server immediately.''"

definition send_telegram_notification :: "world \<Rightarrow> json \<Rightarrow> string \<Rightarrow> bool comp" where
  "send_telegram_notification w config target_url =
     then_do (emit (Enter ''send_telegram_notification'')) (\<lambda>_.
     then_do (lift (dict_get config ''telegram_bot_token'')) (\<lambda>bot_token.
     then_do (lift (dict_get config ''telegram_chat_id'')) (\<lambda>chat_id.
     if \<not> truthy bot_token \<or> \<not> truthy chat_id then ret False
     else
       then_do (now_strftime w) (\<lambda>time.
       let message = telegram_message target_url time;
           telegram_url = ''https://api.telegram.org/bot'' @ format_value w bot_token
                          @ ''/sendMessage'';
           payload = [(''chat_id'', chat_id), (''text'', JStr message),
                      (''parse_mode'', JStr ''Markdown'')]
       in
       try_except
         (then_do (request_http w (POST_fields telegram_url payload)) (\<lambda>response.
            if status response = 200 then ret True else ret False))
         (\<lambda>e. ret False)))))"

definition send_notification :: "world \<Rightarrow> string \<Rightarrow> json \<Rightarrow> string \<Rightarrow> bool comp" where
  "send_notification w notification_type config target_url =
     then_do (emit (Enter ''send_notification'')) (\<lambda>_.
     try_except
       (if lower notification_type = ''slack'' then
          send_slack_notification w config target_url
        else if lower notification_type = ''telegram'' then
          send_telegram_notification w config target_url
        else ret False)
       (\<lambda>e. ret False))"

text \<open>The dictionary \<open>handler\<close> returns; \<open>body\<close> is the value handed to \<open>json.dumps\<close>.\<close>

record result =
  statusCode :: int
  body :: json

text \<open>
  \<open>os.environ.get(name)\<close> is \<open>None\<close> or a \<open>str\<close>; \<open>not v\<close> holds for \<open>None\<close> and for the
  empty string. Past its check a variable is bound to the non-empty string read.
\<close>

definition handler :: "world \<Rightarrow> 'e \<Rightarrow> 'c \<Rightarrow> result comp" where
  "handler w event context =
     then_do (now_isoformat w) (\<lambda>_.
     try_except
       (let notification_type = (case environ w ''NOTIFICATION_TYPE'' of
                                   None \<Rightarrow> ''slack'' | Some t \<Rightarrow> t)
        in
        case environ w ''TARGET_URL'' of
          None \<Rightarrow> raise (Exn ''ValueError'' ''TARGET_URL environment variable is required'')
        | Some target_url \<Rightarrow>
        if target_url = [] then
          raise (Exn ''ValueError'' ''TARGET_URL environment variable is required'')
        else
        (case environ w ''SECRET_NAME'' of
          None \<Rightarrow> raise (Exn ''ValueError'' ''SECRET_NAME environment variable is required'')
        | Some secret_name \<Rightarrow>
        if secret_name = [] then
          raise (Exn ''ValueError'' ''SECRET_NAME environment variable is required'')
        else
          then_do (check_nginx_health w target_url 10) (\<lambda>is_healthy.
          if is_healthy then
            then_do (now_isoformat w) (\<lambda>timestamp.
            ret \<lparr>statusCode = 200,
                 body = JObj [(''status'', JStr ''healthy''),
                              (''url'', JStr target_url),
                              (''timestamp'', JStr timestamp)]\<rparr>)
          else
            then_do (get_secret w secret_name) (\<lambda>notification_config.
            then_do (send_notification w notification_type notification_config
                       target_url) (\<lambda>notification_sent.
            then_do (now_isoformat w) (\<lambda>timestamp.
            ret \<lparr>statusCode = 500,
                 body = JObj [(''status'', JStr ''unhealthy''),
                              (''url'', JStr target_url),
                              (''notification_sent'', JBool notification_sent),
                              (''timestamp'', JStr timestamp)]\<rparr>))))))
       (\<lambda>e.
          then_do (now_isoformat w) (\<lambda>timestamp.
          ret \<lparr>statusCode = 500,
               body = JObj [(''status'', JStr ''error''),
                            (''error'', JStr (str_exn e)),
                            (''timestamp'', JStr timestamp)]\<rparr>)))"


section \<open>Requests and sample worlds\<close>

text \<open>The request \<open>send_telegram_notification\<close> posts, as a function of the values it reads.\<close>

definition telegram_request :: "world \<Rightarrow> json \<Rightarrow> json \<Rightarrow> string \<Rightarrow> string \<Rightarrow> request" where
  "telegram_request w bot_token chat_id url time =
     POST_fields (''https://api.telegram.org/bot'' @ format_value w bot_token @ ''/sendMessage'')
       [(''chat_id'', chat_id), (''text'', JStr (telegram_message url time)),
        (''parse_mode'', JStr ''Markdown'')]"

text \<open>The state in which an invocation starts.\<close>

definition init :: state where
  "init = \<lparr>trace = [], clock_reads = 0\<rparr>"

text \<open>
  A sample world: the target does not answer, the secret holds a webhook URL, and every
  POST is answered with 503. \<open>NOTIFICATION_TYPE\<close> is unset.
\<close>

definition world_down :: world where
  "world_down =
     \<lparr>environ = [''TARGET_URL'' \<mapsto> ''http://nginx.example/'', ''SECRET_NAME'' \<mapsto> ''alerts''],
      http_request = (\<lambda>req. case req of
                        GET u t r \<Rightarrow> Inl (Exn ''MaxRetryError'' ''Max retries exceeded'')
                      | _ \<Rightarrow> Inr \<lparr>status = 503, data = ''unavailable''\<rparr>),
      get_secret_value = (\<lambda>n. if n = ''alerts'' then Inr [''SecretString'' \<mapsto> ''creds'']
                               else Inl (Exn ''ResourceNotFoundException'' ''not found'')),
      json_loads = (\<lambda>s. if s = ''creds''
                         then Inr (JObj [(''slack_webhook_url'', JStr ''https://hooks.example/x'')])
                         else Inl (Exn ''JSONDecodeError'' ''Expecting value'')),
      decode_utf8_ignore = (\<lambda>b. b),
      repr_value = (\<lambda>v. ''?''),
      utcnow_isoformat = (\<lambda>n. ''2024-01-01T00:00:00''),
      utcnow_strftime = (\<lambda>n. ''2024-01-01 00:00:00 UTC'')\<rparr>"

text \<open>
  A second sample world: the target answers 502, \<open>NOTIFICATION_TYPE\<close> is "telegram", the
  secret holds a bot token and a chat id, and every POST is answered with 200.
\<close>

definition world_telegram :: world where
  "world_telegram =
     world_down
       \<lparr>environ := [''TARGET_URL'' \<mapsto> ''http://nginx.example/'', ''SECRET_NAME'' \<mapsto> ''alerts'',
                   ''NOTIFICATION_TYPE'' \<mapsto> ''telegram''],
        http_request := (\<lambda>req. case req of
                           GET u t r \<Rightarrow> Inr \<lparr>status = 502, data = ''Bad Gateway''\<rparr>
                         | _ \<Rightarrow> Inr \<lparr>status = 200, data = ''ok''\<rparr>),
        json_loads := (\<lambda>s. Inr (JObj [(''telegram_bot_token'', JStr ''123:abc''),
                                       (''telegram_chat_id'', JStr ''42'')]))\<rparr>"

section \<open>What each function does in one run\<close>

lemmas comp_defs = ret_def raise_def then_do_def try_except_def lift_def emit_def
  request_http_def secrets_get_secret_value_def now_isoformat_def now_strftime_def

lemma check_nginx_health_run:
  "check_nginx_health w url t s =
     (Inr (case http_request w (GET url t (Retry 2 1)) of
             Inl e \<Rightarrow> False
           | Inr r \<Rightarrow> 200 \<le> status r \<and> status r < 300),
      s\<lparr>trace := trace s @ [Enter ''check_nginx_health'', Http (GET url t (Retry 2 1))]\<rparr>)"
  by (simp add: check_nginx_health_def comp_defs Let_def split: sum.splits)

lemma get_secret_run:
  "get_secret w n s =
     (case get_secret_value w n of
        Inl e \<Rightarrow> Inl e
      | Inr resp \<Rightarrow> (case getitem resp ''SecretString'' of
                       Inl e \<Rightarrow> Inl e
                     | Inr str \<Rightarrow> json_loads w str),
      s\<lparr>trace := trace s @ [Enter ''get_secret'', SecretsManager n]\<rparr>)"
  by (simp add: get_secret_def comp_defs split: sum.splits)

lemma send_slack_notification_run:
  "send_slack_notification w config url s =
     (case dict_get config ''slack_webhook_url'' of
        Inl e \<Rightarrow> (Inl e, s\<lparr>trace := trace s @ [Enter ''send_slack_notification'']\<rparr>)
      | Inr webhook_url \<Rightarrow>
          if \<not> truthy webhook_url
          then (Inr False, s\<lparr>trace := trace s @ [Enter ''send_slack_notification'']\<rparr>)
          else
            (Inr (case http_request w (POST_json webhook_url
                          (slack_message url (utcnow_strftime w (clock_reads s)))) of
                    Inl e \<Rightarrow> False
                  | Inr r \<Rightarrow> status r = 200),
             s\<lparr>trace := trace s @ [Enter ''send_slack_notification'',
                      Http (POST_json webhook_url
                              (slack_message url (utcnow_strftime w (clock_reads s))))],
               clock_reads := Suc (clock_reads s)\<rparr>))"
  by (simp add: send_slack_notification_def comp_defs Let_def split: sum.splits)

lemma send_telegram_notification_run:
  "send_telegram_notification w config url s =
     (case dict_get config ''telegram_bot_token'' of
        Inl e \<Rightarrow> (Inl e, s\<lparr>trace := trace s @ [Enter ''send_telegram_notification'']\<rparr>)
      | Inr bot_token \<Rightarrow>
     (case dict_get config ''telegram_chat_id'' of
        Inl e \<Rightarrow> (Inl e, s\<lparr>trace := trace s @ [Enter ''send_telegram_notification'']\<rparr>)
      | Inr chat_id \<Rightarrow>
          if \<not> truthy bot_token \<or> \<not> truthy chat_id
          then (Inr False, s\<lparr>trace := trace s @ [Enter ''send_telegram_notification'']\<rparr>)
          else
            (Inr (case http_request w (telegram_request w bot_token chat_id url
                                         (utcnow_strftime w (clock_reads s))) of
                    Inl e \<Rightarrow> False
                  | Inr r \<Rightarrow> status r = 200),
             s\<lparr>trace := trace s @ [Enter ''send_telegram_notification'',
                      Http (telegram_request w bot_token chat_id url
                              (utcnow_strftime w (clock_reads s)))],
               clock_reads := Suc (clock_reads s)\<rparr>)))"
  by (simp add: send_telegram_notification_def telegram_request_def comp_defs Let_def
           split: sum.splits)

lemma send_notification_run:
  "send_notification w nt config url s =
     (if lower nt = ''slack'' then
        (case send_slack_notification w config url
                (s\<lparr>trace := trace s @ [Enter ''send_notification'']\<rparr>) of
           (Inl e, s') \<Rightarrow> (Inr False, s')
         | (Inr b, s') \<Rightarrow> (Inr b, s'))
      else if lower nt = ''telegram'' then
        (case send_telegram_notification w config url
                (s\<lparr>trace := trace s @ [Enter ''send_notification'']\<rparr>) of
           (Inl e, s') \<Rightarrow> (Inr False, s')
         | (Inr b, s') \<Rightarrow> (Inr b, s'))
      else (Inr False, s\<lparr>trace := trace s @ [Enter ''send_notification'']\<rparr>))"
  by (simp add: send_notification_def comp_defs)

lemma handler_config_error:
  assumes "environ w ''TARGET_URL'' = None \<or> environ w ''TARGET_URL'' = Some []
           \<or> environ w ''SECRET_NAME'' = None \<or> environ w ''SECRET_NAME'' = Some []"
  shows "\<exists>msg. handler w ev ctx s =
           (Inr \<lparr>statusCode = 500,
                 body = JObj [(''status'', JStr ''error''), (''error'', JStr msg),
                              (''timestamp'', JStr (utcnow_isoformat w (Suc (clock_reads s))))]\<rparr>,
            s\<lparr>clock_reads := Suc (Suc (clock_reads s))\<rparr>)"
  using assms by (auto simp: handler_def comp_defs split: option.splits)

lemma handler_probed:
  assumes "environ w ''TARGET_URL'' = Some url" "url \<noteq> []"
    and "environ w ''SECRET_NAME'' = Some name" "name \<noteq> []"
  shows "handler w ev ctx s =
     then_do (now_isoformat w) (\<lambda>_.
     try_except
       (then_do (check_nginx_health w url 10) (\<lambda>is_healthy.
          if is_healthy then
            then_do (now_isoformat w) (\<lambda>timestamp.
            ret \<lparr>statusCode = 200,
                 body = JObj [(''status'', JStr ''healthy''),
                              (''url'', JStr url),
                              (''timestamp'', JStr timestamp)]\<rparr>)
          else
            then_do (get_secret w name) (\<lambda>notification_config.
            then_do (send_notification w
                       (case environ w ''NOTIFICATION_TYPE'' of None \<Rightarrow> ''slack'' | Some t \<Rightarrow> t)
                       notification_config url) (\<lambda>notification_sent.
            then_do (now_isoformat w) (\<lambda>timestamp.
            ret \<lparr>statusCode = 500,
                 body = JObj [(''status'', JStr ''unhealthy''),
                              (''url'', JStr url),
                              (''notification_sent'', JBool notification_sent),
                              (''timestamp'', JStr timestamp)]\<rparr>)))))
       (\<lambda>e.
          then_do (now_isoformat w) (\<lambda>timestamp.
          ret \<lparr>statusCode = 500,
               body = JObj [(''status'', JStr ''error''),
                            (''error'', JStr (str_exn e)),
                            (''timestamp'', JStr timestamp)]\<rparr>))) s"
  using assms by (simp add: handler_def Let_def)

lemma handler_healthy:
  assumes "environ w ''TARGET_URL'' = Some url" "url \<noteq> []"
    and "environ w ''SECRET_NAME'' = Some name" "name \<noteq> []"
    and "fst (check_nginx_health w url 10 s0) = Inr True"
  shows "handler w ev ctx s =
           (Inr \<lparr>statusCode = 200,
                 body = JObj [(''status'', JStr ''healthy''), (''url'', JStr url),
                              (''timestamp'', JStr (utcnow_isoformat w (Suc (clock_reads s))))]\<rparr>,
            s\<lparr>trace := trace s @ [Enter ''check_nginx_health'', Http (GET url 10 (Retry 2 1))],
              clock_reads := Suc (Suc (clock_reads s))\<rparr>)"
  using assms(5) unfolding handler_probed [OF assms(1-4)]
  by (simp add: check_nginx_health_run comp_defs)

lemma handler_secret_error:
  assumes "environ w ''TARGET_URL'' = Some url" "url \<noteq> []"
    and "environ w ''SECRET_NAME'' = Some name" "name \<noteq> []"
    and "fst (check_nginx_health w url 10 s0) = Inr False"
    and "fst (get_secret w name s1) = Inl e"
  shows "handler w ev ctx s =
           (Inr \<lparr>statusCode = 500,
                 body = JObj [(''status'', JStr ''error''), (''error'', JStr (str_exn e)),
                              (''timestamp'', JStr (utcnow_isoformat w (Suc (clock_reads s))))]\<rparr>,
            s\<lparr>trace := trace s @ [Enter ''check_nginx_health'', Http (GET url 10 (Retry 2 1)),
                                   Enter ''get_secret'', SecretsManager name],
              clock_reads := Suc (Suc (clock_reads s))\<rparr>)"
  using assms(5,6) unfolding handler_probed [OF assms(1-4)]
  by (simp add: check_nginx_health_run get_secret_run comp_defs)

lemma handler_notified:
  assumes "environ w ''TARGET_URL'' = Some url" "url \<noteq> []"
    and "environ w ''SECRET_NAME'' = Some name" "name \<noteq> []"
    and "fst (check_nginx_health w url 10 s0) = Inr False"
    and "fst (get_secret w name s1) = Inr config"
  shows "handler w ev ctx s =
           (case send_notification w
                   (case environ w ''NOTIFICATION_TYPE'' of None \<Rightarrow> ''slack'' | Some t \<Rightarrow> t)
                   config url
                   (s\<lparr>clock_reads := Suc (clock_reads s),
                      trace := trace s @ [Enter ''check_nginx_health'',
                                          Http (GET url 10 (Retry 2 1)),
                                          Enter ''get_secret'', SecretsManager name]\<rparr>) of
              (Inl e, s') \<Rightarrow>
                (Inr \<lparr>statusCode = 500,
                      body = JObj [(''status'', JStr ''error''), (''error'', JStr (str_exn e)),
                                   (''timestamp'', JStr (utcnow_isoformat w (clock_reads s')))]\<rparr>,
                 s'\<lparr>clock_reads := Suc (clock_reads s')\<rparr>)
            | (Inr sent, s') \<Rightarrow>
                (Inr \<lparr>statusCode = 500,
                      body = JObj [(''status'', JStr ''unhealthy''), (''url'', JStr url),
                                   (''notification_sent'', JBool sent),
                                   (''timestamp'', JStr (utcnow_isoformat w (clock_reads s')))]\<rparr>,
                 s'\<lparr>clock_reads := Suc (clock_reads s')\<rparr>))"
proof -
  let ?nt = "case environ w ''NOTIFICATION_TYPE'' of None \<Rightarrow> ''slack'' | Some t \<Rightarrow> t"
  let ?s2 = "s\<lparr>clock_reads := Suc (clock_reads s),
                trace := trace s @ [Enter ''check_nginx_health'',
                                    Http (GET url 10 (Retry 2 1)),
                                    Enter ''get_secret'', SecretsManager name]\<rparr>"
  obtain r s' where run: "send_notification w ?nt config url ?s2 = (r, s')"
    by (cases "send_notification w ?nt config url ?s2")
  show ?thesis
    using assms(5,6) run unfolding handler_probed [OF assms(1-4)]
    by (cases r) (simp_all add: check_nginx_health_run get_secret_run comp_defs)
qed

section \<open>Outcomes of the notifiers\<close>

lemma dict_get_absent:
  "map_of kvs k = None \<Longrightarrow> dict_get (JObj kvs) k = Inr JNull"
  by (simp add: dict_get_def)

lemma dict_get_not_object:
  "\<forall>kvs. v \<noteq> JObj kvs \<Longrightarrow> \<exists>msg. dict_get v k = Inl (Exn ''AttributeError'' msg)"
  by (cases v) (simp_all add: dict_get_def)

lemma send_slack_notification_outcome:
  "\<exists>r rest s'.
     send_slack_notification w config url s = (r, s')
     \<and> trace s' = trace s @ Enter ''send_slack_notification'' # rest
     \<and> (rest = [] \<or> (\<exists>u m. rest = [Http (POST_json u m)]))
     \<and> (r = Inr True \<longrightarrow>
          (\<exists>req resp. Http req \<in> set rest \<and> (\<forall>u t rt. req \<noteq> GET u t rt)
             \<and> http_request w req = Inr resp \<and> status resp = 200))"
proof (cases "dict_get config ''slack_webhook_url''")
  case (Inl e)
  then show ?thesis by (simp add: send_slack_notification_run)
next
  case (Inr webhook_url)
  show ?thesis
  proof (cases "truthy webhook_url")
    case False
    with Inr show ?thesis by (simp add: send_slack_notification_run)
  next
    case True
    let ?req = "POST_json webhook_url (slack_message url (utcnow_strftime w (clock_reads s)))"
    show ?thesis
    proof (cases "http_request w ?req")
      case (Inl e)
      with Inr True show ?thesis by (simp add: send_slack_notification_run)
    next
      case resp: (Inr resp)
      with Inr True show ?thesis by (simp add: send_slack_notification_run)
    qed
  qed
qed

lemma send_telegram_notification_outcome:
  "\<exists>r rest s'.
     send_telegram_notification w config url s = (r, s')
     \<and> trace s' = trace s @ Enter ''send_telegram_notification'' # rest
     \<and> (rest = [] \<or> (\<exists>u f. rest = [Http (POST_fields u f)]))
     \<and> (r = Inr True \<longrightarrow>
          (\<exists>req resp. Http req \<in> set rest \<and> (\<forall>u t rt. req \<noteq> GET u t rt)
             \<and> http_request w req = Inr resp \<and> status resp = 200))"
proof (cases "dict_get config ''telegram_bot_token''")
  case (Inl e)
  then show ?thesis by (simp add: send_telegram_notification_run)
next
  case tok: (Inr bot_token)
  show ?thesis
  proof (cases "dict_get config ''telegram_chat_id''")
    case (Inl e)
    with tok show ?thesis by (simp add: send_telegram_notification_run)
  next
    case chat: (Inr chat_id)
    show ?thesis
    proof (cases "truthy bot_token \<and> truthy chat_id")
      case False
      with tok chat show ?thesis by (auto simp: send_telegram_notification_run)
    next
      case True
      let ?req = "telegram_request w bot_token chat_id url (utcnow_strftime w (clock_reads s))"
      show ?thesis
      proof (cases "http_request w ?req")
        case (Inl e)
        with tok chat True show ?thesis
          by (simp add: send_telegram_notification_run) (simp add: telegram_request_def)
      next
        case resp: (Inr resp)
        have "\<forall>u t rt. ?req \<noteq> GET u t rt" by (simp add: telegram_request_def)
        moreover have "\<exists>u f. ?req = POST_fields u f" by (simp add: telegram_request_def)
        ultimately show ?thesis using tok chat True resp
          by (simp add: send_telegram_notification_run)
      qed
    qed
  qed
qed

lemma send_notification_outcome:
  "\<exists>sent rest s'.
     send_notification w nt config url s = (Inr sent, s')
     \<and> trace s' = trace s @ Enter ''send_notification'' # rest
     \<and> (sent \<longrightarrow>
          (\<exists>req resp. Http req \<in> set rest \<and> (\<forall>u t rt. req \<noteq> GET u t rt)
             \<and> http_request w req = Inr resp \<and> status resp = 200))
     \<and> (lower nt = ''slack'' \<longrightarrow>
          rest = [Enter ''send_slack_notification'']
          \<or> (\<exists>u m. rest = [Enter ''send_slack_notification'', Http (POST_json u m)]))
     \<and> (lower nt = ''telegram'' \<longrightarrow>
          rest = [Enter ''send_telegram_notification'']
          \<or> (\<exists>u f. rest = [Enter ''send_telegram_notification'', Http (POST_fields u f)]))
     \<and> (lower nt \<noteq> ''slack'' \<and> lower nt \<noteq> ''telegram'' \<longrightarrow> rest = [])"
proof -
  let ?s1 = "s\<lparr>trace := trace s @ [Enter ''send_notification'']\<rparr>"
  consider (slack) "lower nt = ''slack''"
    | (telegram) "lower nt \<noteq> ''slack''" "lower nt = ''telegram''"
    | (other) "lower nt \<noteq> ''slack''" "lower nt \<noteq> ''telegram''"
    by blast
  then show ?thesis
  proof cases
    case slack
    from send_slack_notification_outcome [of w config url ?s1]
    obtain r rest s' where run: "send_slack_notification w config url ?s1 = (r, s')"
      and tr: "trace s' = trace ?s1 @ Enter ''send_slack_notification'' # rest"
      and shape: "rest = [] \<or> (\<exists>u m. rest = [Http (POST_json u m)])"
      and ok: "r = Inr True \<longrightarrow>
          (\<exists>req resp. Http req \<in> set rest \<and> (\<forall>u t rt. req \<noteq> GET u t rt)
             \<and> http_request w req = Inr resp \<and> status resp = 200)"
      by blast
    show ?thesis
    proof (cases r)
      case (Inl e)
      with slack run tr shape show ?thesis
        by (simp add: send_notification_run) blast
    next
      case (Inr b)
      with slack run tr shape ok show ?thesis
        by (simp add: send_notification_run)
    qed
  next
    case telegram
    from send_telegram_notification_outcome [of w config url ?s1]
    obtain r rest s' where run: "send_telegram_notification w config url ?s1 = (r, s')"
      and tr: "trace s' = trace ?s1 @ Enter ''send_telegram_notification'' # rest"
      and shape: "rest = [] \<or> (\<exists>u f. rest = [Http (POST_fields u f)])"
      and ok: "r = Inr True \<longrightarrow>
          (\<exists>req resp. Http req \<in> set rest \<and> (\<forall>u t rt. req \<noteq> GET u t rt)
             \<and> http_request w req = Inr resp \<and> status resp = 200)"
      by blast
    show ?thesis
    proof (cases r)
      case (Inl e)
      with telegram run tr shape show ?thesis
        by (simp add: send_notification_run) blast
    next
      case (Inr b)
      with telegram run tr shape ok show ?thesis
        by (simp add: send_notification_run)
    qed
  next
    case other
    then show ?thesis by (simp add: send_notification_run) blast
  qed
qed

lemma send_notification_not_object:
  assumes "\<forall>kvs. v \<noteq> JObj kvs"
  shows "\<exists>rest s'. send_notification w nt v url s = (Inr False, s')
         \<and> trace s' = trace s @ Enter ''send_notification'' # rest
         \<and> clock_reads s' = clock_reads s
         \<and> (\<forall>req. Http req \<notin> set rest)"
proof -
  from dict_get_not_object [OF assms] obtain m1 where
    k1: "dict_get v ''slack_webhook_url'' = Inl (Exn ''AttributeError'' m1)" by blast
  from dict_get_not_object [OF assms] obtain m2 where
    k2: "dict_get v ''telegram_bot_token'' = Inl (Exn ''AttributeError'' m2)" by blast
  show ?thesis
    using k1 k2
    by (simp add: send_notification_run send_slack_notification_run
          send_telegram_notification_run)
qed

lemma lower_slack: "lower ''slack'' = ''slack''"
  by code_simp

lemma lower_telegram: "lower ''telegram'' = ''telegram''"
  by code_simp

lemma lower_telegram_neq_slack: "lower ''telegram'' \<noteq> ''slack''"
  by code_simp

section \<open>The probe\<close>

text \<open>
  C1. Whenever the GET returns a response whose status lies in [200, 300),
  \<open>check_nginx_health\<close> returns \<open>True\<close>, whatever the body holds: both branches of the
  inspection of the body for 'nginx' or 'welcome' give the same verdict.
\<close>

theorem probe_2xx_healthy:
  assumes "http_request w (GET url timeout (Retry 2 1)) = Inr r"
    and "200 \<le> status r" and "status r < 300"
  shows "fst (check_nginx_health w url timeout s) = Inr True"
  using assms by (simp add: check_nginx_health_def comp_defs Let_def)

theorem probe_2xx_healthy_witness:
  "fst (check_nginx_health
          (world_down\<lparr>http_request := (\<lambda>req. Inr \<lparr>status = 204, data = []\<rparr>)\<rparr>)
          ''http://nginx.example/'' 10 init) = Inr True"
  using probe_2xx_healthy
          [of "world_down\<lparr>http_request := (\<lambda>req. Inr \<lparr>status = 204, data = []\<rparr>)\<rparr>"
              "''http://nginx.example/''" 10 "\<lparr>status = 204, data = []\<rparr>" init]
  by simp

text \<open>
  C2. \<open>check_nginx_health\<close> never raises: it always returns a boolean. A response whose
  status lies outside [200, 300) gives \<open>False\<close>, and so does any exception raised by the
  GET.
\<close>

theorem probe_never_raises:
  "(\<exists>b. fst (check_nginx_health w url timeout s) = Inr b)
   \<and> (\<forall>r. http_request w (GET url timeout (Retry 2 1)) = Inr r
          \<and> \<not> (200 \<le> status r \<and> status r < 300)
        \<longrightarrow> fst (check_nginx_health w url timeout s) = Inr False)
   \<and> (\<forall>e. http_request w (GET url timeout (Retry 2 1)) = Inl e
        \<longrightarrow> fst (check_nginx_health w url timeout s) = Inr False)"
  by (simp add: check_nginx_health_run)

theorem probe_never_raises_witness:
  "fst (check_nginx_health world_down ''http://nginx.example/'' 10 init) = Inr False
   \<and> fst (check_nginx_health
          (world_down\<lparr>http_request := (\<lambda>req. Inr \<lparr>status = 301, data = []\<rparr>)\<rparr>)
          ''http://nginx.example/'' 10 init) = Inr False"
  using probe_never_raises [of world_down "''http://nginx.example/''" 10 init]
    probe_never_raises
      [of "world_down\<lparr>http_request := (\<lambda>req. Inr \<lparr>status = 301, data = []\<rparr>)\<rparr>"
          "''http://nginx.example/''" 10 init]
  by (simp add: world_down_def)

section \<open>The handler\<close>

text \<open>
  C3. If \<open>TARGET_URL\<close> or \<open>SECRET_NAME\<close> is absent or empty, \<open>handler\<close> returns
  status code 500 with a body of status "error", and the trace of the run is unchanged:
  no probe, no call of the secret store and no notification call took place (not even
  the entry into one of the functions that make them).
\<close>

theorem missing_config_is_error:
  assumes "environ w ''TARGET_URL'' = None \<or> environ w ''TARGET_URL'' = Some []
           \<or> environ w ''SECRET_NAME'' = None \<or> environ w ''SECRET_NAME'' = Some []"
  shows "\<exists>msg ts. fst (handler w ev ctx s) =
           Inr \<lparr>statusCode = 500,
                body = JObj [(''status'', JStr ''error''), (''error'', JStr msg),
                             (''timestamp'', JStr ts)]\<rparr>
         \<and> trace (snd (handler w ev ctx s)) = trace s"
proof -
  from handler_config_error [OF assms, of ev ctx s] obtain msg where
    "handler w ev ctx s =
           (Inr \<lparr>statusCode = 500,
                 body = JObj [(''status'', JStr ''error''), (''error'', JStr msg),
                              (''timestamp'', JStr (utcnow_isoformat w (Suc (clock_reads s))))]\<rparr>,
            s\<lparr>clock_reads := Suc (Suc (clock_reads s))\<rparr>)" ..
  then show ?thesis by simp
qed

theorem missing_config_is_error_witness:
  "\<exists>msg ts. fst (handler (world_down\<lparr>environ := [''TARGET_URL'' \<mapsto> ''http://nginx.example/'']\<rparr>)
                     () () init) =
           Inr \<lparr>statusCode = 500,
                body = JObj [(''status'', JStr ''error''), (''error'', JStr msg),
                             (''timestamp'', JStr ts)]\<rparr>
         \<and> trace (snd (handler (world_down\<lparr>environ := [''TARGET_URL'' \<mapsto> ''http://nginx.example/'']\<rparr>)
                     () () init)) = []"
  using missing_config_is_error [of "world_down\<lparr>environ := [''TARGET_URL'' \<mapsto> ''http://nginx.example/'']\<rparr>"
              "()" "()" init]
  by (simp add: init_def)

text \<open>
  C7. When the probe says healthy, \<open>handler\<close> returns status code 200 with a body made of
  the status "healthy", the target URL and a timestamp; the run consists of the probe
  only, so neither the secret store nor a notifier was called.
\<close>

theorem healthy_no_secret_no_notification:
  assumes "environ w ''TARGET_URL'' = Some url" "url \<noteq> []"
    and "environ w ''SECRET_NAME'' = Some name" "name \<noteq> []"
    and "fst (check_nginx_health w url 10 s0) = Inr True"
  shows "fst (handler w ev ctx s) =
           Inr \<lparr>statusCode = 200,
                body = JObj [(''status'', JStr ''healthy''), (''url'', JStr url),
                             (''timestamp'', JStr (utcnow_isoformat w (Suc (clock_reads s))))]\<rparr>
         \<and> trace (snd (handler w ev ctx s)) =
             trace s @ [Enter ''check_nginx_health'', Http (GET url 10 (Retry 2 1))]"
  by (simp add: handler_healthy [OF assms])

theorem healthy_no_secret_no_notification_witness:
  "fst (handler (world_down\<lparr>http_request :=
                    (\<lambda>req. Inr \<lparr>status = 200, data = ''Welcome to nginx''\<rparr>)\<rparr>) () () init) =
           Inr \<lparr>statusCode = 200,
                body = JObj [(''status'', JStr ''healthy''), (''url'', JStr ''http://nginx.example/''),
                             (''timestamp'', JStr ''2024-01-01T00:00:00'')]\<rparr>
   \<and> trace (snd (handler (world_down\<lparr>http_request :=
                    (\<lambda>req. Inr \<lparr>status = 200, data = ''Welcome to nginx''\<rparr>)\<rparr>) () () init)) =
       [Enter ''check_nginx_health'', Http (GET ''http://nginx.example/'' 10 (Retry 2 1))]"
  using healthy_no_secret_no_notification [of "world_down\<lparr>http_request :=
                    (\<lambda>req. Inr \<lparr>status = 200, data = ''Welcome to nginx''\<rparr>)\<rparr>"
               "''http://nginx.example/''" "''alerts''" init "()" "()" init]
  by (simp add: world_down_def init_def check_nginx_health_run)

text \<open>
  C5. When the probe says unhealthy and \<open>get_secret\<close> raises (whatever the exception:
  of the secret store, of the lookup of \<open>SecretString\<close> or of \<open>json.loads\<close>),
  \<open>handler\<close> returns status code 500 with a body of status "error" that carries the text
  of the exception; the run consists of the probe and the call of the secret store
  only, so no notification call was made.
\<close>

theorem secret_failure_is_error:
  assumes "environ w ''TARGET_URL'' = Some url" "url \<noteq> []"
    and "environ w ''SECRET_NAME'' = Some name" "name \<noteq> []"
    and "fst (check_nginx_health w url 10 s0) = Inr False"
    and "fst (get_secret w name s1) = Inl e"
  shows "fst (handler w ev ctx s) =
           Inr \<lparr>statusCode = 500,
                body = JObj [(''status'', JStr ''error''), (''error'', JStr (str_exn e)),
                             (''timestamp'', JStr (utcnow_isoformat w (Suc (clock_reads s))))]\<rparr>
         \<and> trace (snd (handler w ev ctx s)) =
             trace s @ [Enter ''check_nginx_health'', Http (GET url 10 (Retry 2 1)),
                        Enter ''get_secret'', SecretsManager name]"
  by (simp add: handler_secret_error [OF assms])

theorem secret_failure_is_error_witness:
  "fst (handler (world_down\<lparr>json_loads :=
                    (\<lambda>s. Inl (Exn ''JSONDecodeError'' ''Expecting value''))\<rparr>) () () init) =
           Inr \<lparr>statusCode = 500,
                body = JObj [(''status'', JStr ''error''), (''error'', JStr ''Expecting value''),
                             (''timestamp'', JStr ''2024-01-01T00:00:00'')]\<rparr>
   \<and> trace (snd (handler (world_down\<lparr>json_loads :=
                    (\<lambda>s. Inl (Exn ''JSONDecodeError'' ''Expecting value''))\<rparr>) () () init)) =
       [Enter ''check_nginx_health'', Http (GET ''http://nginx.example/'' 10 (Retry 2 1)),
        Enter ''get_secret'', SecretsManager ''alerts'']"
  using secret_failure_is_error [of "world_down\<lparr>json_loads :=
                    (\<lambda>s. Inl (Exn ''JSONDecodeError'' ''Expecting value''))\<rparr>"
               "''http://nginx.example/''" "''alerts''" init init
               "Exn ''JSONDecodeError'' ''Expecting value''" "()" "()" init]
  by (simp add: world_down_def init_def check_nginx_health_run get_secret_run getitem_def)

text \<open>
  C4. When the probe says unhealthy and the secret fetch succeeds, \<open>handler\<close> always
  returns status code 500 with a body of status "unhealthy"; it never returns an error
  result and never raises. The flag \<open>notification_sent\<close> can be true only if a POST was
  sent during the run and was answered with status 200: so it is false after a non-200
  answer, after an exception of the transport, and when no POST was sent at all. It is
  false in particular for an unrecognised \<open>NOTIFICATION_TYPE\<close> and for credentials that
  lack a key of the selected channel.
\<close>

theorem notification_failure_not_escalated:
  assumes "environ w ''TARGET_URL'' = Some url" "url \<noteq> []"
    and "environ w ''SECRET_NAME'' = Some name" "name \<noteq> []"
    and "fst (check_nginx_health w url 10 s0) = Inr False"
    and "fst (get_secret w name s1) = Inr config"
    and "nt = (case environ w ''NOTIFICATION_TYPE'' of None \<Rightarrow> ''slack'' | Some t \<Rightarrow> t)"
  shows "\<exists>sent ts.
     fst (handler w ev ctx s) =
       Inr \<lparr>statusCode = 500,
            body = JObj [(''status'', JStr ''unhealthy''), (''url'', JStr url),
                         (''notification_sent'', JBool sent), (''timestamp'', JStr ts)]\<rparr>
     \<and> (sent \<longrightarrow>
          (\<exists>req resp. Http req \<in> set (drop (length (trace s)) (trace (snd (handler w ev ctx s))))
             \<and> (\<forall>u t rt. req \<noteq> GET u t rt)
             \<and> http_request w req = Inr resp \<and> status resp = 200))
     \<and> (lower nt \<noteq> ''slack'' \<and> lower nt \<noteq> ''telegram'' \<longrightarrow> \<not> sent)
     \<and> (lower nt = ''slack''
          \<and> (\<exists>kvs. config = JObj kvs \<and> map_of kvs ''slack_webhook_url'' = None)
        \<longrightarrow> \<not> sent)
     \<and> (lower nt = ''telegram''
          \<and> (\<exists>kvs. config = JObj kvs \<and> (map_of kvs ''telegram_bot_token'' = None
                                         \<or> map_of kvs ''telegram_chat_id'' = None))
        \<longrightarrow> \<not> sent)"
proof -
  let ?s2 = "s\<lparr>clock_reads := Suc (clock_reads s),
                trace := trace s @ [Enter ''check_nginx_health'',
                                    Http (GET url 10 (Retry 2 1)),
                                    Enter ''get_secret'', SecretsManager name]\<rparr>"
  from send_notification_outcome [of w nt config url ?s2]
  obtain sent rest s' where run: "send_notification w nt config url ?s2 = (Inr sent, s')"
    and tr: "trace s' = trace ?s2 @ Enter ''send_notification'' # rest"
    and ok: "sent \<longrightarrow>
          (\<exists>req resp. Http req \<in> set rest \<and> (\<forall>u t rt. req \<noteq> GET u t rt)
             \<and> http_request w req = Inr resp \<and> status resp = 200)"
    and other: "lower nt \<noteq> ''slack'' \<and> lower nt \<noteq> ''telegram'' \<longrightarrow> rest = []"
    by blast
  have h: "handler w ev ctx s =
             (Inr \<lparr>statusCode = 500,
                   body = JObj [(''status'', JStr ''unhealthy''), (''url'', JStr url),
                                (''notification_sent'', JBool sent),
                                (''timestamp'', JStr (utcnow_isoformat w (clock_reads s')))]\<rparr>,
              s'\<lparr>clock_reads := Suc (clock_reads s')\<rparr>)"
    using run unfolding handler_notified [OF assms(1-6)] assms(7) [symmetric] by simp
  have new: "drop (length (trace s)) (trace (snd (handler w ev ctx s))) =
               [Enter ''check_nginx_health'', Http (GET url 10 (Retry 2 1)),
                Enter ''get_secret'', SecretsManager name, Enter ''send_notification''] @ rest"
    using tr by (simp add: h)
  have a: "sent \<longrightarrow>
          (\<exists>req resp. Http req \<in> set (drop (length (trace s)) (trace (snd (handler w ev ctx s))))
             \<and> (\<forall>u t rt. req \<noteq> GET u t rt)
             \<and> http_request w req = Inr resp \<and> status resp = 200)"
    using ok unfolding new by auto
  have b: "lower nt \<noteq> ''slack'' \<and> lower nt \<noteq> ''telegram'' \<longrightarrow> \<not> sent"
    using ok other by auto
  have c: "lower nt = ''slack''
          \<and> (\<exists>kvs. config = JObj kvs \<and> map_of kvs ''slack_webhook_url'' = None)
        \<longrightarrow> \<not> sent"
    using run by (auto simp: send_notification_run send_slack_notification_run dict_get_absent)
  have d: "lower nt = ''telegram''
          \<and> (\<exists>kvs. config = JObj kvs \<and> (map_of kvs ''telegram_bot_token'' = None
                                         \<or> map_of kvs ''telegram_chat_id'' = None))
        \<longrightarrow> \<not> sent"
    using run
    by (auto simp: send_notification_run send_telegram_notification_run dict_get_def
             split: option.splits)
  from h a b c d show ?thesis by simp
qed

theorem notification_failure_not_escalated_witness:
  "\<exists>ts. fst (handler world_down () () init) =
       Inr \<lparr>statusCode = 500,
            body = JObj [(''status'', JStr ''unhealthy''), (''url'', JStr ''http://nginx.example/''),
                         (''notification_sent'', JBool False), (''timestamp'', JStr ts)]\<rparr>"
proof -
  have no200: "\<And>req resp. (\<forall>u t rt. req \<noteq> GET u t rt) \<Longrightarrow>
                 http_request world_down req = Inr resp \<Longrightarrow> status resp \<noteq> 200"
    by (auto simp: world_down_def split: request.splits)
  from notification_failure_not_escalated [of world_down "''http://nginx.example/''" "''alerts''" init init
              "JObj [(''slack_webhook_url'', JStr ''https://hooks.example/x'')]"
              "''slack''" "()" "()" init]
  obtain sent ts where
    r: "fst (handler world_down () () init) =
       Inr \<lparr>statusCode = 500,
            body = JObj [(''status'', JStr ''unhealthy''), (''url'', JStr ''http://nginx.example/''),
                         (''notification_sent'', JBool sent), (''timestamp'', JStr ts)]\<rparr>"
    and s: "sent \<longrightarrow>
          (\<exists>req resp. Http req \<in> set (drop (length (trace init))
                                       (trace (snd (handler world_down () () init))))
             \<and> (\<forall>u t rt. req \<noteq> GET u t rt)
             \<and> http_request world_down req = Inr resp \<and> status resp = 200)"
    by (auto simp: world_down_def check_nginx_health_run get_secret_run getitem_def)
  from s no200 have "sent = False" by blast
  with r show ?thesis by simp
qed

text \<open>
  C6. When the probe says unhealthy and the secret fetch succeeds, the run enters
  \<open>send_notification\<close> exactly once, after the probe and the secret fetch. With
  \<open>NOTIFICATION_TYPE\<close> unset, or set to a value whose lower case is "slack", the rest of
  the run is the webhook variant (with at most one POST, of JSON); with a value whose
  lower case is "telegram" it is the bot-API variant (with at most one POST, of form
  fields); with any other value nothing follows.
\<close>

theorem one_notification_attempt:
  assumes "environ w ''TARGET_URL'' = Some url" "url \<noteq> []"
    and "environ w ''SECRET_NAME'' = Some name" "name \<noteq> []"
    and "fst (check_nginx_health w url 10 s0) = Inr False"
    and "fst (get_secret w name s1) = Inr config"
  shows "\<exists>rest.
     trace (snd (handler w ev ctx s)) =
       trace s @ [Enter ''check_nginx_health'', Http (GET url 10 (Retry 2 1)),
                  Enter ''get_secret'', SecretsManager name,
                  Enter ''send_notification''] @ rest
     \<and> Enter ''send_notification'' \<notin> set rest
     \<and> (environ w ''NOTIFICATION_TYPE'' = None
          \<or> (\<exists>t. environ w ''NOTIFICATION_TYPE'' = Some t \<and> lower t = ''slack'')
        \<longrightarrow> rest = [Enter ''send_slack_notification'']
            \<or> (\<exists>u m. rest = [Enter ''send_slack_notification'', Http (POST_json u m)]))
     \<and> ((\<exists>t. environ w ''NOTIFICATION_TYPE'' = Some t \<and> lower t = ''telegram'')
        \<longrightarrow> rest = [Enter ''send_telegram_notification'']
            \<or> (\<exists>u f. rest = [Enter ''send_telegram_notification'', Http (POST_fields u f)]))
     \<and> ((\<exists>t. environ w ''NOTIFICATION_TYPE'' = Some t
              \<and> lower t \<noteq> ''slack'' \<and> lower t \<noteq> ''telegram'')
        \<longrightarrow> rest = [])"
proof -
  let ?nt = "case environ w ''NOTIFICATION_TYPE'' of None \<Rightarrow> ''slack'' | Some t \<Rightarrow> t"
  let ?s2 = "s\<lparr>clock_reads := Suc (clock_reads s),
                trace := trace s @ [Enter ''check_nginx_health'',
                                    Http (GET url 10 (Retry 2 1)),
                                    Enter ''get_secret'', SecretsManager name]\<rparr>"
  from send_notification_outcome [of w ?nt config url ?s2]
  obtain sent rest s' where run: "send_notification w ?nt config url ?s2 = (Inr sent, s')"
    and tr: "trace s' = trace ?s2 @ Enter ''send_notification'' # rest"
    and slack: "lower ?nt = ''slack'' \<longrightarrow>
          rest = [Enter ''send_slack_notification'']
          \<or> (\<exists>u m. rest = [Enter ''send_slack_notification'', Http (POST_json u m)])"
    and telegram: "lower ?nt = ''telegram'' \<longrightarrow>
          rest = [Enter ''send_telegram_notification'']
          \<or> (\<exists>u f. rest = [Enter ''send_telegram_notification'', Http (POST_fields u f)])"
    and other: "lower ?nt \<noteq> ''slack'' \<and> lower ?nt \<noteq> ''telegram'' \<longrightarrow> rest = []"
    by blast
  have a: "trace (snd (handler w ev ctx s)) =
       trace s @ [Enter ''check_nginx_health'', Http (GET url 10 (Retry 2 1)),
                  Enter ''get_secret'', SecretsManager name,
                  Enter ''send_notification''] @ rest"
    using run tr unfolding handler_notified [OF assms] by simp
  consider (s) "lower ?nt = ''slack''"
    | (t) "lower ?nt \<noteq> ''slack''" "lower ?nt = ''telegram''"
    | (o) "lower ?nt \<noteq> ''slack''" "lower ?nt \<noteq> ''telegram''"
    by blast
  then have b: "Enter ''send_notification'' \<notin> set rest"
  proof cases
    case s
    with slack show ?thesis by auto
  next
    case t
    with telegram show ?thesis by auto
  next
    case o
    with other show ?thesis by simp
  qed
  have c: "environ w ''NOTIFICATION_TYPE'' = None
          \<or> (\<exists>t. environ w ''NOTIFICATION_TYPE'' = Some t \<and> lower t = ''slack'')
        \<longrightarrow> rest = [Enter ''send_slack_notification'']
            \<or> (\<exists>u m. rest = [Enter ''send_slack_notification'', Http (POST_json u m)])"
    using slack by (auto simp: lower_slack)
  have d: "(\<exists>t. environ w ''NOTIFICATION_TYPE'' = Some t \<and> lower t = ''telegram'')
        \<longrightarrow> rest = [Enter ''send_telegram_notification'']
            \<or> (\<exists>u f. rest = [Enter ''send_telegram_notification'', Http (POST_fields u f)])"
    using telegram by auto
  have e: "(\<exists>t. environ w ''NOTIFICATION_TYPE'' = Some t
              \<and> lower t \<noteq> ''slack'' \<and> lower t \<noteq> ''telegram'')
        \<longrightarrow> rest = []"
    using other by auto
  from a b c d e show ?thesis by blast
qed

theorem one_notification_attempt_witness:
  "\<exists>rest.
     trace (snd (handler world_telegram () () init)) =
       [Enter ''check_nginx_health'', Http (GET ''http://nginx.example/'' 10 (Retry 2 1)),
        Enter ''get_secret'', SecretsManager ''alerts'',
        Enter ''send_notification''] @ rest
     \<and> Enter ''send_notification'' \<notin> set rest
     \<and> (rest = [Enter ''send_telegram_notification'']
        \<or> (\<exists>u f. rest = [Enter ''send_telegram_notification'', Http (POST_fields u f)]))"
  using one_notification_attempt [of world_telegram "''http://nginx.example/''" "''alerts''" init init
              "JObj [(''telegram_bot_token'', JStr ''123:abc''),
                     (''telegram_chat_id'', JStr ''42'')]" "()" "()" init]
  by (simp add: world_telegram_def world_down_def init_def check_nginx_health_run
        get_secret_run getitem_def lower_telegram)

section \<open>The notifiers\<close>

text \<open>
  C8. Whenever a variant has the credentials it needs, it sends its POST, and it returns
  \<open>True\<close> exactly when the POST returns a response of status 200: any other status
  (204 included) and any exception give \<open>False\<close>. This holds for the webhook variant and
  for the bot-API variant.
\<close>

theorem notify_true_iff_status_200:
  "(\<forall>webhook_url.
      dict_get config ''slack_webhook_url'' = Inr webhook_url \<and> truthy webhook_url \<longrightarrow>
        trace (snd (send_slack_notification w config url s)) =
          trace s @ [Enter ''send_slack_notification'',
                     Http (POST_json webhook_url
                             (slack_message url (utcnow_strftime w (clock_reads s))))]
        \<and> fst (send_slack_notification w config url s) =
            Inr (case http_request w
                        (POST_json webhook_url
                           (slack_message url (utcnow_strftime w (clock_reads s)))) of
                   Inl e \<Rightarrow> False
                 | Inr resp \<Rightarrow> status resp = 200))
   \<and> (\<forall>bot_token chat_id.
        dict_get config ''telegram_bot_token'' = Inr bot_token \<and> truthy bot_token
        \<and> dict_get config ''telegram_chat_id'' = Inr chat_id \<and> truthy chat_id \<longrightarrow>
        trace (snd (send_telegram_notification w config url s)) =
          trace s @ [Enter ''send_telegram_notification'',
                     Http (telegram_request w bot_token chat_id url
                             (utcnow_strftime w (clock_reads s)))]
        \<and> fst (send_telegram_notification w config url s) =
            Inr (case http_request w
                        (telegram_request w bot_token chat_id url
                           (utcnow_strftime w (clock_reads s))) of
                   Inl e \<Rightarrow> False
                 | Inr resp \<Rightarrow> status resp = 200))"
  by (simp add: send_slack_notification_run send_telegram_notification_run)

theorem notify_true_iff_status_200_witness:
  "fst (send_slack_notification
          (world_down\<lparr>http_request := (\<lambda>req. Inr \<lparr>status = 204, data = []\<rparr>)\<rparr>)
          (JObj [(''slack_webhook_url'', JStr ''https://hooks.example/x'')])
          ''http://nginx.example/'' init) = Inr False
   \<and> fst (send_slack_notification
          (world_down\<lparr>http_request := (\<lambda>req. Inr \<lparr>status = 200, data = []\<rparr>)\<rparr>)
          (JObj [(''slack_webhook_url'', JStr ''https://hooks.example/x'')])
          ''http://nginx.example/'' init) = Inr True
   \<and> fst (send_telegram_notification
          (world_down\<lparr>http_request := (\<lambda>req. Inr \<lparr>status = 204, data = []\<rparr>)\<rparr>)
          (JObj [(''telegram_bot_token'', JStr ''123:abc''), (''telegram_chat_id'', JStr ''42'')])
          ''http://nginx.example/'' init) = Inr False
   \<and> fst (send_telegram_notification
          (world_down\<lparr>http_request := (\<lambda>req. Inr \<lparr>status = 200, data = []\<rparr>)\<rparr>)
          (JObj [(''telegram_bot_token'', JStr ''123:abc''), (''telegram_chat_id'', JStr ''42'')])
          ''http://nginx.example/'' init) = Inr True"
  using
    notify_true_iff_status_200 [of "JObj [(''slack_webhook_url'', JStr ''https://hooks.example/x'')]"
           "world_down\<lparr>http_request := (\<lambda>req. Inr \<lparr>status = 204, data = []\<rparr>)\<rparr>"
           "''http://nginx.example/''" init]
    notify_true_iff_status_200 [of "JObj [(''slack_webhook_url'', JStr ''https://hooks.example/x'')]"
           "world_down\<lparr>http_request := (\<lambda>req. Inr \<lparr>status = 200, data = []\<rparr>)\<rparr>"
           "''http://nginx.example/''" init]
    notify_true_iff_status_200 [of "JObj [(''telegram_bot_token'', JStr ''123:abc''), (''telegram_chat_id'', JStr ''42'')]"
           "world_down\<lparr>http_request := (\<lambda>req. Inr \<lparr>status = 204, data = []\<rparr>)\<rparr>"
           "''http://nginx.example/''" init]
    notify_true_iff_status_200 [of "JObj [(''telegram_bot_token'', JStr ''123:abc''), (''telegram_chat_id'', JStr ''42'')]"
           "world_down\<lparr>http_request := (\<lambda>req. Inr \<lparr>status = 200, data = []\<rparr>)\<rparr>"
           "''http://nginx.example/''" init]
  by (simp add: dict_get_def)

text \<open>
  C9. For a credentials dictionary without the key \<open>slack_webhook_url\<close> the webhook
  variant returns \<open>False\<close>, and for one without \<open>telegram_bot_token\<close> or without
  \<open>telegram_chat_id\<close> the bot-API variant returns \<open>False\<close>; in both cases the state
  afterwards differs from the one before only by the entry into the function, so no
  HTTP call was made. The same holds when the variant is reached through
  \<open>send_notification\<close>.
\<close>

theorem missing_credentials_no_http_call:
  "(map_of kvs ''slack_webhook_url'' = None \<longrightarrow>
      send_slack_notification w (JObj kvs) url s =
        (Inr False, s\<lparr>trace := trace s @ [Enter ''send_slack_notification'']\<rparr>))
   \<and> (map_of kvs ''telegram_bot_token'' = None \<or> map_of kvs ''telegram_chat_id'' = None \<longrightarrow>
      send_telegram_notification w (JObj kvs) url s =
        (Inr False, s\<lparr>trace := trace s @ [Enter ''send_telegram_notification'']\<rparr>))
   \<and> (map_of kvs ''slack_webhook_url'' = None \<and> lower nt = ''slack'' \<longrightarrow>
      send_notification w nt (JObj kvs) url s =
        (Inr False, s\<lparr>trace := trace s @ [Enter ''send_notification'',
                                            Enter ''send_slack_notification'']\<rparr>))
   \<and> ((map_of kvs ''telegram_bot_token'' = None \<or> map_of kvs ''telegram_chat_id'' = None)
        \<and> lower nt \<noteq> ''slack'' \<and> lower nt = ''telegram'' \<longrightarrow>
      send_notification w nt (JObj kvs) url s =
        (Inr False, s\<lparr>trace := trace s @ [Enter ''send_notification'',
                                            Enter ''send_telegram_notification'']\<rparr>))"
proof -
  have a: "map_of kvs ''slack_webhook_url'' = None \<longrightarrow>
      send_slack_notification w (JObj kvs) url s =
        (Inr False, s\<lparr>trace := trace s @ [Enter ''send_slack_notification'']\<rparr>)" for s
    by (simp add: send_slack_notification_run dict_get_def)
  have b: "map_of kvs ''telegram_bot_token'' = None \<or> map_of kvs ''telegram_chat_id'' = None \<longrightarrow>
      send_telegram_notification w (JObj kvs) url s =
        (Inr False, s\<lparr>trace := trace s @ [Enter ''send_telegram_notification'']\<rparr>)" for s
    by (auto simp: send_telegram_notification_run dict_get_def)
  have c: "map_of kvs ''slack_webhook_url'' = None \<and> lower nt = ''slack'' \<longrightarrow>
      send_notification w nt (JObj kvs) url s =
        (Inr False, s\<lparr>trace := trace s @ [Enter ''send_notification'',
                                            Enter ''send_slack_notification'']\<rparr>)"
    using a [of "s\<lparr>trace := trace s @ [Enter ''send_notification'']\<rparr>"]
    by (simp add: send_notification_run)
  have d: "(map_of kvs ''telegram_bot_token'' = None \<or> map_of kvs ''telegram_chat_id'' = None)
        \<and> lower nt \<noteq> ''slack'' \<and> lower nt = ''telegram'' \<longrightarrow>
      send_notification w nt (JObj kvs) url s =
        (Inr False, s\<lparr>trace := trace s @ [Enter ''send_notification'',
                                            Enter ''send_telegram_notification'']\<rparr>)"
    using b [of "s\<lparr>trace := trace s @ [Enter ''send_notification'']\<rparr>"]
    by (auto simp: send_notification_run)
  from a b c d show ?thesis by blast
qed

theorem missing_credentials_no_http_call_witness:
  "send_slack_notification world_telegram
     (JObj [(''telegram_bot_token'', JStr ''123:abc''), (''telegram_chat_id'', JStr ''42'')])
     ''http://nginx.example/'' init =
     (Inr False, \<lparr>trace = [Enter ''send_slack_notification''], clock_reads = 0\<rparr>)
   \<and> send_telegram_notification world_telegram
     (JObj [(''telegram_bot_token'', JStr ''123:abc'')])
     ''http://nginx.example/'' init =
     (Inr False, \<lparr>trace = [Enter ''send_telegram_notification''], clock_reads = 0\<rparr>)
   \<and> send_notification world_telegram ''telegram''
     (JObj [(''telegram_chat_id'', JStr ''42'')])
     ''http://nginx.example/'' init =
     (Inr False, \<lparr>trace = [Enter ''send_notification'', Enter ''send_telegram_notification''],
                  clock_reads = 0\<rparr>)"
  using
    missing_credentials_no_http_call [of "[(''telegram_bot_token'', JStr ''123:abc''), (''telegram_chat_id'', JStr ''42'')]"
           world_telegram "''http://nginx.example/''" init "''slack''"]
    missing_credentials_no_http_call [of "[(''telegram_bot_token'', JStr ''123:abc'')]"
           world_telegram "''http://nginx.example/''" init "''slack''"]
    missing_credentials_no_http_call [of "[(''telegram_chat_id'', JStr ''42'')]"
           world_telegram "''http://nginx.example/''" init "''telegram''"]
  by (simp add: init_def lower_telegram lower_telegram_neq_slack)

text \<open>
  C10. If the secret string parses to a JSON value that is not an object,
  \<open>get_secret\<close> returns that value. Both variants then raise \<open>AttributeError\<close> at the
  lookup of their first key, \<open>send_notification\<close> turns this into \<open>False\<close>, and for an
  unhealthy probe \<open>handler\<close> returns status code 500 with a body of status "unhealthy"
  and \<open>notification_sent\<close> false; the only HTTP request of the run is the probe.
\<close>

theorem non_object_secret_unhealthy:
  assumes "environ w ''TARGET_URL'' = Some url" "url \<noteq> []"
    and "environ w ''SECRET_NAME'' = Some name" "name \<noteq> []"
    and "fst (check_nginx_health w url 10 s0) = Inr False"
    and "get_secret_value w name = Inr resp" "resp ''SecretString'' = Some str"
    and "json_loads w str = Inr v" "\<forall>kvs. v \<noteq> JObj kvs"
  shows "fst (get_secret w name s1) = Inr v
     \<and> (\<exists>msg. fst (send_slack_notification w v url s2) = Inl (Exn ''AttributeError'' msg))
     \<and> (\<exists>msg. fst (send_telegram_notification w v url s2) = Inl (Exn ''AttributeError'' msg))
     \<and> fst (send_notification w nt v url s2) = Inr False
     \<and> (\<exists>ts. fst (handler w ev ctx s) =
           Inr \<lparr>statusCode = 500,
                body = JObj [(''status'', JStr ''unhealthy''), (''url'', JStr url),
                             (''notification_sent'', JBool False), (''timestamp'', JStr ts)]\<rparr>)
     \<and> (\<forall>req. Http req \<in> set (drop (length (trace s)) (trace (snd (handler w ev ctx s))))
            \<longrightarrow> req = GET url 10 (Retry 2 1))"
proof -
  let ?nt = "case environ w ''NOTIFICATION_TYPE'' of None \<Rightarrow> ''slack'' | Some t \<Rightarrow> t"
  let ?s2 = "s\<lparr>clock_reads := Suc (clock_reads s),
                trace := trace s @ [Enter ''check_nginx_health'',
                                    Http (GET url 10 (Retry 2 1)),
                                    Enter ''get_secret'', SecretsManager name]\<rparr>"
  have sec: "fst (get_secret w name s1) = Inr v" for s1
    using assms(6-8) by (simp add: get_secret_run getitem_def)
  from dict_get_not_object [OF assms(9)] obtain m1 where
    k1: "dict_get v ''slack_webhook_url'' = Inl (Exn ''AttributeError'' m1)" by blast
  from dict_get_not_object [OF assms(9)] obtain m2 where
    k2: "dict_get v ''telegram_bot_token'' = Inl (Exn ''AttributeError'' m2)" by blast
  have a: "\<exists>msg. fst (send_slack_notification w v url s2) = Inl (Exn ''AttributeError'' msg)"
    using k1 by (simp add: send_slack_notification_run)
  have b: "\<exists>msg. fst (send_telegram_notification w v url s2) = Inl (Exn ''AttributeError'' msg)"
    using k2 by (simp add: send_telegram_notification_run)
  from send_notification_not_object [OF assms(9), of w nt url s2]
  have c: "fst (send_notification w nt v url s2) = Inr False" by auto
  from send_notification_not_object [OF assms(9), of w ?nt url ?s2]
  obtain rest s' where run: "send_notification w ?nt v url ?s2 = (Inr False, s')"
    and tr: "trace s' = trace ?s2 @ Enter ''send_notification'' # rest"
    and nohttp: "\<forall>req. Http req \<notin> set rest" by blast
  have h: "handler w ev ctx s =
             (Inr \<lparr>statusCode = 500,
                   body = JObj [(''status'', JStr ''unhealthy''), (''url'', JStr url),
                                (''notification_sent'', JBool False),
                                (''timestamp'', JStr (utcnow_isoformat w (clock_reads s')))]\<rparr>,
              s'\<lparr>clock_reads := Suc (clock_reads s')\<rparr>)"
    using run unfolding handler_notified [OF assms(1-5) sec] by simp
  have d: "\<exists>ts. fst (handler w ev ctx s) =
           Inr \<lparr>statusCode = 500,
                body = JObj [(''status'', JStr ''unhealthy''), (''url'', JStr url),
                             (''notification_sent'', JBool False), (''timestamp'', JStr ts)]\<rparr>"
    by (simp add: h)
  have e: "\<forall>req. Http req \<in> set (drop (length (trace s)) (trace (snd (handler w ev ctx s))))
            \<longrightarrow> req = GET url 10 (Retry 2 1)"
    using nohttp tr by (auto simp: h)
  from sec a b c d e show ?thesis by blast
qed

theorem non_object_secret_unhealthy_witness:
  "fst (get_secret (world_down\<lparr>json_loads := (\<lambda>s. Inr (JArr [JStr ''https://hooks.example/x'']))\<rparr>)
          ''alerts'' init) = Inr (JArr [JStr ''https://hooks.example/x''])
   \<and> (\<exists>ts. fst (handler
                 (world_down\<lparr>json_loads := (\<lambda>s. Inr (JArr [JStr ''https://hooks.example/x'']))\<rparr>)
                 () () init) =
           Inr \<lparr>statusCode = 500,
                body = JObj [(''status'', JStr ''unhealthy''),
                             (''url'', JStr ''http://nginx.example/''),
                             (''notification_sent'', JBool False), (''timestamp'', JStr ts)]\<rparr>)"
  using non_object_secret_unhealthy [of "world_down\<lparr>json_loads := (\<lambda>s. Inr (JArr [JStr ''https://hooks.example/x'']))\<rparr>"
               "''http://nginx.example/''" "''alerts''" init
               "[''SecretString'' \<mapsto> ''creds'']" "''creds''"
               "JArr [JStr ''https://hooks.example/x'']" init init "''slack''" "()" "()" init]
  by (simp add: world_down_def check_nginx_health_run)

end
